theory Spec2Isabelle
  imports Complex_Main "HOL-Library.Sublist"
begin

section \<open>Python values and errors\<close>

text \<open>
  The plugin works on what \<^verbatim>\<open>requests.post(...).json()\<close> returns: Python values
  built from JSON text. \<open>pyval\<close> is that universe. A dict is an association list in
  insertion order, read as a dict: the first binding of a key is its value and \<open>len\<close>
  counts distinct keys. The keys of these dicts are always strings.

  A \<open>char\<close> stands for one code point of a Python \<open>str\<close>.
\<close>

subsection \<open>Floats\<close>

text \<open>
  A Python float is a finite number, an infinity or \<open>nan\<close>; JSON text can hold all of
  them (\<^verbatim>\<open>1e999\<close> is read as \<open>inf\<close>, and \<^verbatim>\<open>NaN\<close> and \<^verbatim>\<open>Infinity\<close> are accepted). The
  finite ones are idealised as reals: a result inside the range of a double is kept
  exact (its rounding to 53 bits is not modelled), a result outside of it is an infinity.
  \<open>float_overflow\<close> is the least magnitude that rounds to an infinity,
  \<open>2^1024 - 2^970\<close>.
\<close>

datatype pyfloat = Fin real | PInf | NInf | NaN

definition float_overflow :: int where
  "float_overflow = 2 ^ 1024 - 2 ^ 970"

text \<open>The float a real result is stored as.\<close>

definition fl :: "real \<Rightarrow> pyfloat" where
  "fl r = (if of_int float_overflow \<le> r then PInf
           else if r \<le> - of_int float_overflow then NInf
           else Fin r)"

text \<open>\<^verbatim>\<open>x + y\<close> on floats.\<close>

fun fadd :: "pyfloat \<Rightarrow> pyfloat \<Rightarrow> pyfloat" where
  "fadd NaN y = NaN"
| "fadd x NaN = NaN"
| "fadd PInf NInf = NaN"
| "fadd NInf PInf = NaN"
| "fadd PInf y = PInf"
| "fadd x PInf = PInf"
| "fadd NInf y = NInf"
| "fadd x NInf = NInf"
| "fadd (Fin a) (Fin b) = fl (a + b)"

text \<open>\<^verbatim>\<open>x / d\<close> on floats, for a divisor \<open>d\<close> other than 0.\<close>

fun fdiv :: "pyfloat \<Rightarrow> pyfloat \<Rightarrow> pyfloat" where
  "fdiv NaN d = NaN"
| "fdiv x NaN = NaN"
| "fdiv PInf PInf = NaN"
| "fdiv PInf NInf = NaN"
| "fdiv NInf PInf = NaN"
| "fdiv NInf NInf = NaN"
| "fdiv PInf (Fin d) = (if 0 < d then PInf else NInf)"
| "fdiv NInf (Fin d) = (if 0 < d then NInf else PInf)"
| "fdiv (Fin a) PInf = Fin 0"
| "fdiv (Fin a) NInf = Fin 0"
| "fdiv (Fin a) (Fin d) = fl (a / d)"

subsection \<open>Values\<close>

datatype pyval =
    PNone
  | PBool bool
  | PInt int
  | PFloat pyfloat
  | PStr string
  | PList "pyval list"
  | PDict "(string \<times> pyval) list"

text \<open>
  Exceptions, all of them subclasses of Python's \<open>Exception\<close>. A \<open>RuntimeError\<close>
  carries its message as the format string and the values formatted into it.
  \<open>RequestError\<close> stands for whatever \<^verbatim>\<open>requests.post\<close> or \<^verbatim>\<open>.json()\<close> raise
  (connection failure, timeout, text that is not JSON), \<open>OSError\<close> for a failed file
  operation.
\<close>

datatype error =
    TypeError
  | KeyError
  | IndexError
  | ValueError
  | AttributeError
  | ZeroDivisionError
  | OverflowError
  | OSError
  | RequestError
  | RuntimeError string "pyval list"

subsection \<open>The Python operations the plugin applies to a value\<close>

definition dict_keys :: "(string \<times> pyval) list \<Rightarrow> string list" where
  "dict_keys kvs = remdups (map fst kvs)"

text \<open>\<^verbatim>\<open>len(x)\<close>\<close>

fun py_len :: "pyval \<Rightarrow> error + nat" where
  "py_len (PDict kvs) = Inr (length (dict_keys kvs))"
| "py_len (PList xs) = Inr (length xs)"
| "py_len (PStr s) = Inr (length s)"
| "py_len _ = Inl TypeError"

text \<open>\<^verbatim>\<open>k in x\<close> for a string \<open>k\<close>: a key of a dict, an element of a list, a substring
  of a string; anything else is not iterable.\<close>

fun py_in :: "string \<Rightarrow> pyval \<Rightarrow> error + bool" where
  "py_in k (PDict kvs) = Inr (map_of kvs k \<noteq> None)"
| "py_in k (PList xs) = Inr (PStr k \<in> set xs)"
| "py_in k (PStr s) = Inr (sublist k s)"
| "py_in k _ = Inl TypeError"

text \<open>\<^verbatim>\<open>xs[i]\<close> on a sequence: a negative index counts from the end.\<close>

definition py_index :: "'a list \<Rightarrow> int \<Rightarrow> error + 'a" where
  "py_index xs i =
     (if 0 \<le> i \<and> i < int (length xs) then Inr (xs ! nat i)
      else if i < 0 \<and> - int (length xs) \<le> i then Inr (xs ! nat (int (length xs) + i))
      else Inl IndexError)"

text \<open>\<^verbatim>\<open>x[k]\<close>. A dict with string keys has no other key; a list or a string
  takes integers only (a bool is an integer); a list or dict as a dict key is unhashable.\<close>

fun py_getitem :: "pyval \<Rightarrow> pyval \<Rightarrow> error + pyval" where
  "py_getitem (PDict kvs) (PStr k) =
     (case map_of kvs k of None \<Rightarrow> Inl KeyError | Some v \<Rightarrow> Inr v)"
| "py_getitem (PDict kvs) (PList _) = Inl TypeError"
| "py_getitem (PDict kvs) (PDict _) = Inl TypeError"
| "py_getitem (PDict kvs) _ = Inl KeyError"
| "py_getitem (PList xs) (PInt i) = py_index xs i"
| "py_getitem (PList xs) (PBool b) = py_index xs (if b then 1 else 0)"
| "py_getitem (PList xs) _ = Inl TypeError"
| "py_getitem (PStr s) (PInt i) =
     (case py_index s i of Inl e \<Rightarrow> Inl e | Inr c \<Rightarrow> Inr (PStr [c]))"
| "py_getitem (PStr s) (PBool b) =
     (case py_index s (if b then 1 else 0) of Inl e \<Rightarrow> Inl e | Inr c \<Rightarrow> Inr (PStr [c]))"
| "py_getitem (PStr s) _ = Inl TypeError"
| "py_getitem _ _ = Inl TypeError"

text \<open>\<^verbatim>\<open>for v in x\<close>: the elements of a list, the keys of a dict, the characters of a
  string.\<close>

fun py_iter :: "pyval \<Rightarrow> error + pyval list" where
  "py_iter (PList xs) = Inr xs"
| "py_iter (PDict kvs) = Inr (map PStr (dict_keys kvs))"
| "py_iter (PStr s) = Inr (map (\<lambda>c. PStr [c]) s)"
| "py_iter _ = Inl TypeError"

text \<open>\<^verbatim>\<open>x.get(k, default)\<close> and \<^verbatim>\<open>x.keys()\<close>: methods of a dict only.\<close>

fun py_get :: "pyval \<Rightarrow> string \<Rightarrow> pyval \<Rightarrow> error + pyval" where
  "py_get (PDict kvs) k d = Inr (case map_of kvs k of None \<Rightarrow> d | Some v \<Rightarrow> v)"
| "py_get _ k d = Inl AttributeError"

fun py_keys :: "pyval \<Rightarrow> error + string list" where
  "py_keys (PDict kvs) = Inr (dict_keys kvs)"
| "py_keys _ = Inl AttributeError"

text \<open>\<^verbatim>\<open>x == n\<close> for an integer literal \<open>n\<close>: numbers compare by value, and a bool
  is the number 0 or 1.\<close>

fun py_eq_int :: "pyval \<Rightarrow> int \<Rightarrow> bool" where
  "py_eq_int (PInt i) n = (i = n)"
| "py_eq_int (PFloat (Fin r)) n = (r = of_int n)"
| "py_eq_int (PBool b) n = ((if b then 1 else 0) = n)"
| "py_eq_int _ n = False"

text \<open>Truth value of \<^verbatim>\<open>if x:\<close>.\<close>

fun py_truthy :: "pyval \<Rightarrow> bool" where
  "py_truthy PNone = False"
| "py_truthy (PBool b) = b"
| "py_truthy (PInt i) = (i \<noteq> 0)"
| "py_truthy (PFloat x) = (x \<noteq> Fin 0)"
| "py_truthy (PStr s) = (s \<noteq> [])"
| "py_truthy (PList xs) = (xs \<noteq> [])"
| "py_truthy (PDict kvs) = (kvs \<noteq> [])"

text \<open>
  \<^verbatim>\<open>float(x)\<close>. An integer that rounds to an infinity raises \<open>OverflowError\<close>
  (\<^verbatim>\<open>int too large to convert to float\<close>). What Python makes of a string
  (\<^verbatim>\<open>float("1.5")\<close> is a number, \<^verbatim>\<open>float("abc")\<close> raises \<open>ValueError\<close>) is taken as the
  parameter \<open>pf\<close>.
\<close>

fun py_float :: "(string \<Rightarrow> pyfloat option) \<Rightarrow> pyval \<Rightarrow> error + pyfloat" where
  "py_float pf (PInt i) =
     (if \<bar>i\<bar> < float_overflow then Inr (Fin (of_int i)) else Inl OverflowError)"
| "py_float pf (PFloat x) = Inr x"
| "py_float pf (PBool b) = Inr (Fin (if b then 1 else 0))"
| "py_float pf (PStr s) = (case pf s of None \<Rightarrow> Inl ValueError | Some x \<Rightarrow> Inr x)"
| "py_float pf _ = Inl TypeError"

text \<open>\<^verbatim>\<open>x / d\<close> on floats: division by zero raises, whatever \<open>x\<close> is.\<close>

definition py_truediv :: "pyfloat \<Rightarrow> pyfloat \<Rightarrow> error + pyfloat" where
  "py_truediv x d = (if d = Fin 0 then Inl ZeroDivisionError else Inr (fdiv x d))"

text \<open>\<^verbatim>\<open>sum(xs)\<close> on a list of floats: from 0, left to right.\<close>

definition py_sum :: "pyfloat list \<Rightarrow> pyfloat" where
  "py_sum xs = foldl fadd (Fin 0) xs"

text \<open>\<^verbatim>\<open>d[k] = v\<close> on a dict: an existing key keeps its place.\<close>

fun dict_set :: "(string \<times> pyval) list \<Rightarrow> string \<Rightarrow> pyval \<Rightarrow> (string \<times> pyval) list" where
  "dict_set [] k v = [(k, v)]"
| "dict_set ((k', v') # kvs) k v =
     (if k' = k then (k, v) # kvs else (k', v') # dict_set kvs k v)"

section \<open>Value Extractor\<close>

text \<open>
  \<^verbatim>\<open>SMAWebConnect._clean_value\<close> and \<^verbatim>\<open>SMAWebConnect._extract_values\<close>. A reading is
  \<open>Some x\<close> for a float and \<open>None\<close> for Python's \<open>None\<close>. The calls of
  \<^verbatim>\<open>self.logger\<close> that narrate progress only write text and are not part of the model;
  the argument \<open>key\<close> is used by them alone.
\<close>

definition clean_value ::
  "(string \<Rightarrow> pyfloat option) \<Rightarrow> string \<Rightarrow> pyval \<Rightarrow> pyfloat \<Rightarrow> error + pyfloat option"
  where
  "clean_value pf key value_container factor =
     (case py_in ''val'' value_container of
        Inl e \<Rightarrow> Inl e
      | Inr False \<Rightarrow> Inr None
      | Inr True \<Rightarrow>
          (case py_getitem value_container (PStr ''val'') of
             Inl e \<Rightarrow> Inl e
           | Inr v \<Rightarrow>
               if v = PNone then Inr None
               else (case py_float pf v of
                       Inl e \<Rightarrow> Inl e
                     | Inr x \<Rightarrow>
                         (case py_truediv x factor of
                            Inl e \<Rightarrow> Inl e
                          | Inr y \<Rightarrow> Inr (Some y)))))"

text \<open>The loop over two or more instances: only readings that are not \<open>None\<close> are
  appended to \<open>return_data\<close>.\<close>

fun extract_loop ::
  "(string \<Rightarrow> pyfloat option) \<Rightarrow> string \<Rightarrow> pyval list \<Rightarrow> pyfloat \<Rightarrow> pyfloat option list
     \<Rightarrow> error + pyfloat option list" where
  "extract_loop pf key [] factor return_data = Inr return_data"
| "extract_loop pf key (raw_value # raw_values) factor return_data =
     (case clean_value pf key raw_value factor of
        Inl e \<Rightarrow> Inl e
      | Inr None \<Rightarrow> extract_loop pf key raw_values factor return_data
      | Inr (Some x) \<Rightarrow> extract_loop pf key raw_values factor (return_data @ [Some x]))"

definition extract_values ::
  "(string \<Rightarrow> pyfloat option) \<Rightarrow> string \<Rightarrow> pyval \<Rightarrow> pyfloat
     \<Rightarrow> error + pyfloat option list" where
  "extract_values pf key vals factor =
     (case py_len vals of
        Inl e \<Rightarrow> Inl e
      | Inr n \<Rightarrow>
          if n \<noteq> 1 then Inr []
          else (case py_in ''1'' vals of
             Inl e \<Rightarrow> Inl e
           | Inr False \<Rightarrow> Inr []
           | Inr True \<Rightarrow>
               (case py_getitem vals (PStr ''1'') of
                  Inl e \<Rightarrow> Inl e
                | Inr insts \<Rightarrow>
                    (case py_len insts of
                       Inl e \<Rightarrow> Inl e
                     | Inr m \<Rightarrow>
                         if m = 0 then Inr []
                         else if m = 1 then
                           (case py_getitem insts (PInt 0) of
                              Inl e \<Rightarrow> Inl e
                            | Inr inst \<Rightarrow>
                                (case clean_value pf key inst factor of
                                   Inl e \<Rightarrow> Inl e
                                 | Inr x \<Rightarrow> Inr [x]))
                         else (case py_iter insts of
                                 Inl e \<Rightarrow> Inl e
                               | Inr raw_values \<Rightarrow>
                                   extract_loop pf key raw_values factor [])))))"

section \<open>Field Catalog\<close>

text \<open>An entry of \<^verbatim>\<open>SMAWebConnect.FIELD_MAPPING\<close>; \<open>kind\<close> is its \<^verbatim>\<open>'type'\<close>. The catalog is
  the dict in the order it is written, which is the order \<^verbatim>\<open>.items()\<close> iterates in.\<close>

record field_info =
  name :: string
  description :: string
  unit :: string
  kind :: string
  factor :: pyfloat

definition FIELD_MAPPING :: "(string \<times> field_info) list" where
  "FIELD_MAPPING =
    [(''6100_40263F00'', \<lparr>name = ''grid_power'', description = ''Grid power'',
       unit = ''W'', kind = ''gauge'', factor = Fin 1\<rparr>),
     (''6100_00465700'', \<lparr>name = ''frequency'', description = ''Frequency'',
       unit = ''Hz'', kind = ''gauge'', factor = Fin 100\<rparr>),
     (''6100_00464800'', \<lparr>name = ''voltage_l1'', description = ''Voltage L1'',
       unit = ''V'', kind = ''gauge'', factor = Fin 100\<rparr>),
     (''6100_00464900'', \<lparr>name = ''voltage_l2'', description = ''Voltage L2'',
       unit = ''V'', kind = ''gauge'', factor = Fin 100\<rparr>),
     (''6100_00464A00'', \<lparr>name = ''voltage_l3'', description = ''Voltage L3'',
       unit = ''V'', kind = ''gauge'', factor = Fin 100\<rparr>),
     (''6100_40465300'', \<lparr>name = ''current_l1'', description = ''Current L1'',
       unit = ''A'', kind = ''gauge'', factor = Fin 1000\<rparr>),
     (''6100_40465400'', \<lparr>name = ''current_l2'', description = ''Current L2'',
       unit = ''A'', kind = ''gauge'', factor = Fin 1000\<rparr>),
     (''6100_40465500'', \<lparr>name = ''current_l3'', description = ''Current L3'',
       unit = ''A'', kind = ''gauge'', factor = Fin 1000\<rparr>),
     (''6100_0046C200'', \<lparr>name = ''pv_power'', description = ''PV power'',
       unit = ''W'', kind = ''gauge'', factor = Fin 1\<rparr>),
     (''6380_40451F00'', \<lparr>name = ''pv_voltage'', description = ''PV voltage (average of all PV channels)'',
       unit = ''V'', kind = ''gauge'', factor = Fin 100\<rparr>),
     (''6380_40452100'', \<lparr>name = ''pv_current'', description = ''PV current (average of all PV channels)'',
       unit = ''A'', kind = ''gauge'', factor = Fin 1000\<rparr>),
     (''6400_0046C300'', \<lparr>name = ''pv_gen_meter'', description = ''PV generation meter'',
       unit = ''Wh'', kind = ''counter'', factor = Fin 1\<rparr>),
     (''6400_00260100'', \<lparr>name = ''total_yield'', description = ''Total yield'',
       unit = ''Wh'', kind = ''counter'', factor = Fin 1\<rparr>),
     (''6400_00262200'', \<lparr>name = ''daily_yield'', description = ''Daily yield'',
       unit = ''Wh'', kind = ''counter'', factor = Fin 1\<rparr>),
     (''6100_40463600'', \<lparr>name = ''grid_power_supplied'', description = ''Grid power supplied'',
       unit = ''W'', kind = ''gauge'', factor = Fin 1\<rparr>),
     (''6100_40463700'', \<lparr>name = ''grid_power_absorbed'', description = ''Grid power absorbed'',
       unit = ''W'', kind = ''gauge'', factor = Fin 1\<rparr>),
     (''6400_00462400'', \<lparr>name = ''grid_total_yield'', description = ''Grid total yield'',
       unit = ''Wh'', kind = ''counter'', factor = Fin 1\<rparr>),
     (''6400_00462500'', \<lparr>name = ''grid_total_absorbed'', description = ''Grid total absorbed'',
       unit = ''Wh'', kind = ''counter'', factor = Fin 1\<rparr>),
     (''6100_00543100'', \<lparr>name = ''current_consumption'', description = ''Current consumption'',
       unit = ''W'', kind = ''gauge'', factor = Fin 1\<rparr>),
     (''6400_00543A00'', \<lparr>name = ''total_consumption'', description = ''Total consumption'',
       unit = ''Wh'', kind = ''counter'', factor = Fin 1\<rparr>)]"

section \<open>Poller: from the device payload to the values of a sample\<close>

text \<open>\<^verbatim>\<open>[value for value in values if value is not None]\<close>. In
  \<^verbatim>\<open>sum(values) / len(values)\<close> the length, an integer, is converted to a float.\<close>

fun not_none :: "pyfloat option list \<Rightarrow> pyfloat list" where
  "not_none [] = []"
| "not_none (None # vs) = not_none vs"
| "not_none (Some x # vs) = x # not_none vs"

text \<open>The body of the loop over the catalog in \<^verbatim>\<open>_read_data\<close> (one field), on the dict
  \<open>metrics_values\<close> built so far.\<close>

definition read_field ::
  "(string \<Rightarrow> pyfloat option) \<Rightarrow> pyval \<Rightarrow> string \<Rightarrow> field_info \<Rightarrow> (string \<times> pyval) list
     \<Rightarrow> error + (string \<times> pyval) list" where
  "read_field pf data key info metrics_values =
     (case py_in key data of
        Inl e \<Rightarrow> Inl e
      | Inr False \<Rightarrow> Inr metrics_values
      | Inr True \<Rightarrow>
          (case py_getitem data (PStr key) of
             Inl e \<Rightarrow> Inl e
           | Inr raw \<Rightarrow>
               (case extract_values pf key raw (factor info) of
                  Inl e \<Rightarrow> Inl e
                | Inr vals \<Rightarrow>
                    if length vals = 0 then Inr metrics_values
                    else if length vals = 1 then
                      (case hd vals of
                         None \<Rightarrow> Inr metrics_values
                       | Some x \<Rightarrow> Inr (dict_set metrics_values (name info) (PFloat x)))
                    else
                      (let vals' = not_none vals in
                       if length vals' = 1 then
                         Inr (dict_set metrics_values (name info) (PFloat (hd vals')))
                       else if length vals' > 1 then
                         (case py_truediv (py_sum vals') (Fin (real (length vals'))) of
                            Inl e \<Rightarrow> Inl e
                          | Inr mean \<Rightarrow> Inr (dict_set metrics_values (name info) (PFloat mean)))
                       else Inr metrics_values))))"

text \<open>\<^verbatim>\<open>for key, info in SMAWebConnect.FIELD_MAPPING.items()\<close>\<close>

fun read_fields ::
  "(string \<Rightarrow> pyfloat option) \<Rightarrow> pyval \<Rightarrow> (string \<times> field_info) list \<Rightarrow> (string \<times> pyval) list
     \<Rightarrow> error + (string \<times> pyval) list" where
  "read_fields pf data [] metrics_values = Inr metrics_values"
| "read_fields pf data ((key, info) # infos) metrics_values =
     (case read_field pf data key info metrics_values of
        Inl e \<Rightarrow> Inl e
      | Inr metrics_values' \<Rightarrow> read_fields pf data infos metrics_values')"

text \<open>\<^verbatim>\<open>key not in SMAWebConnect.FIELD_MAPPING.keys()\<close> hashes \<open>key\<close>: a list or a dict
  is unhashable.\<close>

fun py_in_keys :: "pyval \<Rightarrow> string list \<Rightarrow> error + bool" where
  "py_in_keys (PStr k) keys = Inr (k \<in> set keys)"
| "py_in_keys (PList _) keys = Inl TypeError"
| "py_in_keys (PDict _) keys = Inl TypeError"
| "py_in_keys _ keys = Inr False"

text \<open>\<^verbatim>\<open>for key in data\<close>: an unknown key is logged with \<^verbatim>\<open>data[key]\<close>, which is
  evaluated and can raise.\<close>

fun unknown_keys :: "pyval \<Rightarrow> pyval list \<Rightarrow> error + unit" where
  "unknown_keys data [] = Inr ()"
| "unknown_keys data (key # keys) =
     (case py_in_keys key (map fst FIELD_MAPPING) of
        Inl e \<Rightarrow> Inl e
      | Inr True \<Rightarrow> unknown_keys data keys
      | Inr False \<Rightarrow>
          (case py_getitem data key of
             Inl e \<Rightarrow> Inl e
           | Inr _ \<Rightarrow> unknown_keys data keys))"

text \<open>Lines 221 to 250 of \<^verbatim>\<open>_read_data\<close>: the values of the sample, from the payload
  \<open>data\<close> of the device.\<close>

definition sample_values ::
  "(string \<Rightarrow> pyfloat option) \<Rightarrow> pyval \<Rightarrow> error + (string \<times> pyval) list" where
  "sample_values pf data =
     (case read_fields pf data FIELD_MAPPING [] of
        Inl e \<Rightarrow> Inl e
      | Inr metrics_values \<Rightarrow>
          (case py_iter data of
             Inl e \<Rightarrow> Inl e
           | Inr keys \<Rightarrow>
               (case unknown_keys data keys of
                  Inl e \<Rightarrow> Inl e
                | Inr _ \<Rightarrow>
                    (let offline = (map_of metrics_values ''frequency'' = None
                                    \<or> map_of metrics_values ''frequency'' = Some PNone)
                     in Inr (dict_set metrics_values ''online'' (PBool (\<not> offline)))))))"

section \<open>Session Store\<close>

text \<open>
  \<^verbatim>\<open>SIDPersister\<close> keeps one JSON document in the file at its path. The file is absent,
  holds text that is not JSON, or holds the text of a value (what \<^verbatim>\<open>json.dump\<close> writes,
  \<^verbatim>\<open>json.load\<close> reads back). Whether the operating system lets an operation through is
  an input: opening can fail, and so can the transfer after the file was opened.
\<close>

datatype sid_file_content = NoFile | NotJson | Json pyval

datatype io = Succeeds | OpenFails | TransferFails

text \<open>The \<^verbatim>\<open>try\<close> block of \<^verbatim>\<open>SIDPersister.get\<close>, then the method with its handler.\<close>

definition get_body :: "io \<Rightarrow> sid_file_content \<Rightarrow> error + pyval" where
  "get_body io f =
     (case io of
        OpenFails \<Rightarrow> Inl OSError
      | TransferFails \<Rightarrow> Inl OSError
      | Succeeds \<Rightarrow>
          (case f of
             NoFile \<Rightarrow> Inl OSError
           | NotJson \<Rightarrow> Inl ValueError
           | Json v \<Rightarrow> py_getitem v (PStr ''sid'')))"

definition get :: "io \<Rightarrow> sid_file_content \<Rightarrow> error + pyval" where
  "get io f = (case get_body io f of Inl ex \<Rightarrow> Inr PNone | Inr sid \<Rightarrow> Inr sid)"

text \<open>The \<^verbatim>\<open>try\<close> block of \<^verbatim>\<open>SIDPersister.save\<close>: opening for writing empties the
  file, so a transfer that fails leaves text that is not JSON.\<close>

definition save_body ::
  "io \<Rightarrow> pyval \<Rightarrow> sid_file_content \<Rightarrow> (error + unit) \<times> sid_file_content" where
  "save_body io sid f =
     (case io of
        OpenFails \<Rightarrow> (Inl OSError, f)
      | TransferFails \<Rightarrow> (Inl OSError, NotJson)
      | Succeeds \<Rightarrow> (Inr (), Json (PDict [(''sid'', sid)])))"

definition save ::
  "io \<Rightarrow> pyval \<Rightarrow> sid_file_content \<Rightarrow> (error + unit) \<times> sid_file_content" where
  "save io sid f =
     (case save_body io sid f of
        (Inl ex, f') \<Rightarrow> (Inr (), f')
      | (Inr u, f') \<Rightarrow> (Inr u, f'))"

section \<open>The plugin's state\<close>

record device =
  sma_inverter_ip :: string
  password :: string

text \<open>What \<^verbatim>\<open>_enqueue_metrics\<close> puts on the queue: the dict with the keys \<^verbatim>\<open>type\<close>,
  \<^verbatim>\<open>timestamp\<close>, \<^verbatim>\<open>tags\<close> and \<^verbatim>\<open>values\<close>.\<close>

record sample =
  type_of :: string
  timestamp :: real
  tags :: "(string \<times> string) list"
  values_of :: "(string \<times> pyval) list"

text \<open>What the plugin does to the outside, in order: the requests it posts (endpoint
  address with the session id sent; address with the password), the error reports of
  \<^verbatim>\<open>run\<close>, and its sleeps.\<close>

datatype event =
    PostGetValues string pyval
  | PostLogin string string
  | LogException error
  | LogCouldNotRead error
  | Sleep nat

text \<open>The attributes of an \<^verbatim>\<open>SMAWebConnect\<close> object, the file of its
  \<^verbatim>\<open>SIDPersister\<close>, and the events so far. \<open>metrics_queue\<close> is the deque, leftmost
  element first.\<close>

record state =
  sample_rate :: nat
  sma_devices :: "device list"
  sma_sid :: "(string \<times> pyval) list"
  metrics_queue :: "sample list"
  sid_file :: sid_file_content
  events :: "event list"

text \<open>\<^verbatim>\<open>SMAWebConnect.__init__\<close>\<close>

definition init :: "string \<Rightarrow> string \<Rightarrow> io \<Rightarrow> sid_file_content \<Rightarrow> error + state" where
  "init device_ip device_password io f =
     (let web_address = ''https://'' @ device_ip in
      case get io f of
        Inl e \<Rightarrow> Inl e
      | Inr session_id \<Rightarrow>
          Inr \<lparr>sample_rate = 30,
               sma_devices = [\<lparr>sma_inverter_ip = web_address, password = device_password\<rparr>],
               sma_sid = (if py_truthy session_id then [(web_address, session_id)] else []),
               metrics_queue = [],
               sid_file = f,
               events = []\<rparr>)"

section \<open>Session Manager\<close>

text \<open>
  The device's side of one request: what \<^verbatim>\<open>requests.post(...).json()\<close> gives (a value
  or an exception), and how the disk behaves if the plugin then saves a session id.
\<close>

datatype exchange = Exchange (reply: "error + pyval") (disk: io)

text \<open>\<^verbatim>\<open>SMAWebConnect._login\<close>, on the device's answer to the login request.\<close>

definition login :: "device \<Rightarrow> exchange \<Rightarrow> state \<Rightarrow> (error + unit) \<times> state" where
  "login sma_device x st =
     (let ip = sma_inverter_ip sma_device;
          st1 = st\<lparr>events := events st @ [PostLogin ip (password sma_device)]\<rparr>
      in case reply x of
        Inl e \<Rightarrow> (Inl e, st1)
      | Inr response \<Rightarrow>
          (case (case py_in ''result'' response of
                   Inl e \<Rightarrow> Inl e
                 | Inr False \<Rightarrow> Inr False
                 | Inr True \<Rightarrow>
                     (case py_getitem response (PStr ''result'') of
                        Inl e \<Rightarrow> Inl e
                      | Inr result \<Rightarrow> py_in ''sid'' result)) of
             Inl e \<Rightarrow> (Inl e, st1)
           | Inr True \<Rightarrow>
               (case py_getitem response (PStr ''result'') of
                  Inl e \<Rightarrow> (Inl e, st1)
                | Inr result \<Rightarrow>
                    (case py_getitem result (PStr ''sid'') of
                       Inl e \<Rightarrow> (Inl e, st1)
                     | Inr sid \<Rightarrow>
                         (let st2 = st1\<lparr>sma_sid := dict_set (sma_sid st1) ip sid\<rparr>
                          in case save (disk x) sid (sid_file st2) of
                            (Inl e, f) \<Rightarrow> (Inl e, st2\<lparr>sid_file := f\<rparr>)
                          | (Inr u, f) \<Rightarrow> (Inr (), st2\<lparr>sid_file := f\<rparr>))))
           | Inr False \<Rightarrow>
               (case py_get response ''err'' (PStr ''unknown'') of
                  Inl e \<Rightarrow> (Inl e, st1)
                | Inr error_code \<Rightarrow>
                    if py_eq_int error_code 503
                    then (Inl (RuntimeError ''Maximum amount of sessions'' []), st1)
                    else (Inl (RuntimeError ''Could not login: {0}'' [error_code]), st1))))"

section \<open>Poller\<close>

text \<open>
  A call either returns, raises, or does not return on the exchanges it is given: the
  \<^verbatim>\<open>while True\<close> loop of \<^verbatim>\<open>_read_data\<close> asks the device again after every login, so
  the exchanges can run out before the call is over.
\<close>

datatype 'a outcome = NoReturn | Raise error | Return 'a

text \<open>The \<^verbatim>\<open>while True\<close> loop of \<^verbatim>\<open>_read_data\<close>: post \<^verbatim>\<open>getValues\<close>, log in and post
  again while the device answers 401. The result carries the exchanges not yet used.\<close>

fun fetch_values ::
  "device \<Rightarrow> exchange list \<Rightarrow> state \<Rightarrow> pyval outcome \<times> state \<times> exchange list" where
  "fetch_values sma_device [] st = (NoReturn, st, [])"
| "fetch_values sma_device (x # xs) st =
     (let ip = sma_inverter_ip sma_device;
          sid = (case map_of (sma_sid st) ip of None \<Rightarrow> PStr [] | Some s \<Rightarrow> s);
          st1 = st\<lparr>events := events st @ [PostGetValues ip sid]\<rparr>
      in case reply x of
        Inl e \<Rightarrow> (Raise e, st1, xs)
      | Inr response \<Rightarrow>
          (case py_get response ''err'' PNone of
             Inl e \<Rightarrow> (Raise e, st1, xs)
           | Inr err \<Rightarrow>
               if py_eq_int err 401 then
                 (case xs of
                    [] \<Rightarrow> (NoReturn, st1, [])
                  | y # ys \<Rightarrow>
                      (case login sma_device y st1 of
                         (Inl e, st2) \<Rightarrow> (Raise e, st2, ys)
                       | (Inr u, st2) \<Rightarrow> fetch_values sma_device ys st2))
               else (Return response, st1, xs)))"

text \<open>Lines 213 to 218 of \<^verbatim>\<open>_read_data\<close>: the serial number and the payload of the one
  device in the response.\<close>

definition parse_response :: "pyval \<Rightarrow> error + string \<times> pyval" where
  "parse_response response =
     (case py_in ''result'' response of
        Inl e \<Rightarrow> Inl e
      | Inr False \<Rightarrow> Inl (RuntimeError ''Unexpected response: {0}'' [response])
      | Inr True \<Rightarrow>
          (case py_getitem response (PStr ''result'') of
             Inl e \<Rightarrow> Inl e
           | Inr result \<Rightarrow>
               (case py_len result of
                  Inl e \<Rightarrow> Inl e
                | Inr n \<Rightarrow>
                    if n \<noteq> 1 then Inl (RuntimeError ''Unexpected response: {0}'' [response])
                    else (case py_keys result of
                       Inl e \<Rightarrow> Inl e
                     | Inr ks \<Rightarrow>
                         (case py_index ks 0 of
                            Inl e \<Rightarrow> Inl e
                          | Inr serial \<Rightarrow>
                              (case py_getitem result (PStr serial) of
                                 Inl e \<Rightarrow> Inl e
                               | Inr data \<Rightarrow>
                                   if data = PNone
                                   then Inl (RuntimeError ''Unexpected response: {0}'' [response])
                                   else Inr (serial, data)))))))"

section \<open>Metrics Queue\<close>

text \<open>\<^verbatim>\<open>SMAWebConnect._enqueue_metrics\<close>: \<^verbatim>\<open>appendleft\<close> of the sample; \<open>now\<close> is what
  \<^verbatim>\<open>time.time()\<close> returns. Nothing in its \<^verbatim>\<open>try\<close> block raises.\<close>

definition enqueue_metrics :: "string \<Rightarrow> (string \<times> pyval) list \<Rightarrow> real \<Rightarrow> state \<Rightarrow> state" where
  "enqueue_metrics device_id vals now st =
     st\<lparr>metrics_queue :=
          \<lparr>type_of = ''sma'', timestamp = now, tags = [(''device'', device_id)],
           values_of = vals\<rparr> # metrics_queue st\<rparr>"

text \<open>\<^verbatim>\<open>deque.pop()\<close> takes the rightmost element and raises \<open>IndexError\<close> on an empty
  deque.\<close>

definition pop :: "'a list \<Rightarrow> error + 'a \<times> 'a list" where
  "pop q = (if q = [] then Inl IndexError else Inr (last q, butlast q))"

text \<open>\<^verbatim>\<open>SMAWebConnect.collect_metrics\<close>, run to its end: the samples the generator
  yields, and the queue it leaves.\<close>

function collect_queue :: "sample list \<Rightarrow> sample list \<times> sample list" where
  "collect_queue q =
     (case pop q of
        Inl e \<Rightarrow> ([], q)
      | Inr (x, q') \<Rightarrow> (case collect_queue q' of (ys, q'') \<Rightarrow> (x # ys, q'')))"
  by pat_completeness auto
termination
  by (relation "measure length") (auto simp: pop_def split: if_splits)

definition collect_metrics :: "state \<Rightarrow> sample list \<times> state" where
  "collect_metrics st =
     (case collect_queue (metrics_queue st) of (ys, q) \<Rightarrow> (ys, st\<lparr>metrics_queue := q\<rparr>))"

section \<open>Poller: one cycle and the polling loop\<close>

text \<open>\<^verbatim>\<open>SMAWebConnect._read_data\<close>\<close>

definition read_data ::
  "(string \<Rightarrow> pyfloat option) \<Rightarrow> device \<Rightarrow> real \<Rightarrow> exchange list \<Rightarrow> state
     \<Rightarrow> unit outcome \<times> state \<times> exchange list" where
  "read_data pf sma_device now xs st =
     (case fetch_values sma_device xs st of
        (NoReturn, st1, rest) \<Rightarrow> (NoReturn, st1, rest)
      | (Raise e, st1, rest) \<Rightarrow> (Raise e, st1, rest)
      | (Return response, st1, rest) \<Rightarrow>
          (case parse_response response of
             Inl e \<Rightarrow> (Raise e, st1, rest)
           | Inr (serial, data) \<Rightarrow>
               (case sample_values pf data of
                  Inl e \<Rightarrow> (Raise e, st1, rest)
                | Inr metrics_values \<Rightarrow>
                    (Return (), enqueue_metrics serial metrics_values now st1, rest))))"

text \<open>One pass of \<^verbatim>\<open>run\<close>'s loop gets the exchanges of the device during the pass and
  the time \<^verbatim>\<open>time.time()\<close> shows.\<close>

datatype cycle = Cycle (script: "exchange list") (clock: real)

text \<open>\<^verbatim>\<open>for sma_device in self._sma_devices\<close> with its \<^verbatim>\<open>try\<close> and
  \<^verbatim>\<open>except Exception\<close>.\<close>

fun read_devices ::
  "(string \<Rightarrow> pyfloat option) \<Rightarrow> device list \<Rightarrow> real \<Rightarrow> exchange list \<Rightarrow> state
     \<Rightarrow> state outcome" where
  "read_devices pf [] now xs st = Return st"
| "read_devices pf (sma_device # devices) now xs st =
     (case read_data pf sma_device now xs st of
        (NoReturn, st1, rest) \<Rightarrow> NoReturn
      | (Raise ex, st1, rest) \<Rightarrow>
          read_devices pf devices now rest
            (st1\<lparr>events := events st1 @ [LogException ex, LogCouldNotRead ex]\<rparr>)
      | (Return u, st1, rest) \<Rightarrow> read_devices pf devices now rest st1)"

text \<open>The body of \<^verbatim>\<open>while True\<close> in \<^verbatim>\<open>run\<close>.\<close>

definition run_iteration :: "(string \<Rightarrow> pyfloat option) \<Rightarrow> cycle \<Rightarrow> state \<Rightarrow> state outcome" where
  "run_iteration pf c st =
     (case read_devices pf (sma_devices st) (clock c) (script c) st of
        NoReturn \<Rightarrow> NoReturn
      | Raise ex \<Rightarrow> Raise ex
      | Return st1 \<Rightarrow> Return (st1\<lparr>events := events st1 @ [Sleep (sample_rate st1)]\<rparr>))"

text \<open>
  \<^verbatim>\<open>SMAWebConnect.run\<close> never returns. \<open>run pf cs st\<close> follows it through the passes
  \<open>cs\<close>: after them the loop is \<open>Looping\<close> at the top of its next pass, or it \<open>Hangs\<close> inside
  a pass that does not return, or an exception has left the loop and it \<open>Dies\<close>.
\<close>

datatype progress = Looping state | Hangs | Dies error

fun run :: "(string \<Rightarrow> pyfloat option) \<Rightarrow> cycle list \<Rightarrow> state \<Rightarrow> progress" where
  "run pf [] st = Looping st"
| "run pf (c # cs) st =
     (case run_iteration pf c st of
        NoReturn \<Rightarrow> Hangs
      | Raise ex \<Rightarrow> Dies ex
      | Return st1 \<Rightarrow> run pf cs st1)"

section \<open>Notions used to state the properties\<close>

text \<open>A real is in the range of a float when it does not round to an infinity.\<close>

definition in_range :: "real \<Rightarrow> bool" where
  "in_range r = (\<bar>r\<bar> < of_int float_overflow)"

text \<open>A scale factor above 0.\<close>

fun float_positive :: "pyfloat \<Rightarrow> bool" where
  "float_positive (Fin d) = (0 < d)"
| "float_positive PInf = True"
| "float_positive _ = False"

text \<open>
  A raw reading of the device is null or a number that \<^verbatim>\<open>float()\<close> converts: a float, or
  an integer that does not round to an infinity. \<open>reading_float\<close> is the float of the
  number. An instance of a channel is an object with a raw reading under \<^verbatim>\<open>"val"\<close>,
  and \<open>instance_float\<close> is the float of its number.
\<close>

fun reading_float :: "pyval \<Rightarrow> pyfloat option" where
  "reading_float (PInt i) = (if \<bar>i\<bar> < float_overflow then Some (Fin (of_int i)) else None)"
| "reading_float (PFloat x) = Some x"
| "reading_float _ = None"

definition raw_reading :: "pyval \<Rightarrow> bool" where
  "raw_reading v = (v = PNone \<or> reading_float v \<noteq> None)"

definition instance_reading :: "(string \<times> pyval) list \<Rightarrow> bool" where
  "instance_reading kvs =
     (case map_of kvs ''val'' of None \<Rightarrow> False | Some v \<Rightarrow> raw_reading v)"

definition instance_float :: "(string \<times> pyval) list \<Rightarrow> pyfloat option" where
  "instance_float kvs =
     (case map_of kvs ''val'' of None \<Rightarrow> None | Some v \<Rightarrow> reading_float v)"

text \<open>The mean of a list of floats as Python computes it,
  \<^verbatim>\<open>sum(values) / len(values)\<close>.\<close>

definition float_mean :: "pyfloat list \<Rightarrow> pyfloat" where
  "float_mean xs = fdiv (py_sum xs) (Fin (real (length xs)))"


text \<open>What one pass of the loop over the catalog leaves under a field's name, given the
  extracted readings \<open>vs\<close> and the entry \<open>old\<close> found there: \<open>old\<close> when no reading is
  there, the reading when it is the only one, and the mean of the readings otherwise.\<close>

definition field_value :: "pyfloat option list \<Rightarrow> pyval option \<Rightarrow> pyval option" where
  "field_value vs old =
     (case not_none vs of
        [] \<Rightarrow> old
      | [x] \<Rightarrow> Some (PFloat x)
      | x # y # xs \<Rightarrow> Some (PFloat (float_mean (x # y # xs))))"

text \<open>A dict all of whose values are floats.\<close>

definition floats_only :: "(string \<times> pyval) list \<Rightarrow> bool" where
  "floats_only kvs = list_all (\<lambda>(k, v). case v of PFloat r \<Rightarrow> True | _ \<Rightarrow> False) kvs"

section \<open>Properties of float arithmetic\<close>

lemma fl_in_range: "in_range r \<Longrightarrow> fl r = Fin r"
  by (auto simp: in_range_def fl_def)

lemma float_positive_nonzero: "float_positive f \<Longrightarrow> f \<noteq> Fin 0"
  by (cases f) auto





section \<open>Properties of the Value Extractor\<close>

lemma py_index_0 [simp]: "py_index (x # xs) 0 = Inr x"
  by (simp add: py_index_def)

text \<open>
  Claim C6, as the code has it. A single-reading field is a dict whose only key is
  \<^verbatim>\<open>"1"\<close>, holding a list of one instance. For a scale factor \<open>f > 0\<close>: if the instance's
  \<^verbatim>\<open>"val"\<close> is a float, or an integer of a magnitude below \<open>float_overflow\<close>,
  \<open>extract_values\<close> returns the float division of that number by \<open>f\<close>, and this is the
  quotient itself when the number and \<open>f\<close> are finite and the quotient is in the range of a
  float; if it is an integer of a larger magnitude, \<open>extract_values\<close> raises
  \<open>OverflowError\<close>; if it is null, \<open>extract_values\<close> returns an absent reading, which is
  not the reading 0.
\<close>

theorem extract_single_reading:
  assumes "float_positive f"
    and "dict_keys fld = [''1'']"
    and "map_of fld ''1'' = Some (PList [PDict inst])"
  shows "(map_of inst ''val'' = Some (PInt i) \<and> \<bar>i\<bar> < float_overflow \<longrightarrow>
            extract_values pf key (PDict fld) f = Inr [Some (fdiv (Fin (real_of_int i)) f)])
       \<and> (map_of inst ''val'' = Some (PInt i) \<and> float_overflow \<le> \<bar>i\<bar> \<longrightarrow>
            extract_values pf key (PDict fld) f = Inl OverflowError)
       \<and> (map_of inst ''val'' = Some (PFloat x) \<longrightarrow>
            extract_values pf key (PDict fld) f = Inr [Some (fdiv x f)])
       \<and> (in_range (r / d) \<longrightarrow> fdiv (Fin r) (Fin d) = Fin (r / d))
       \<and> (map_of inst ''val'' = Some PNone \<longrightarrow>
            extract_values pf key (PDict fld) f = Inr [None]
            \<and> extract_values pf key (PDict fld) f \<noteq> Inr [Some (Fin 0)])"
  using assms float_positive_nonzero [OF assms(1)]
  by (simp add: extract_values_def clean_value_def py_truediv_def fl_in_range)

theorem extract_single_reading_witness:
  "extract_values Map.empty ''6100_00465700''
      (PDict [(''1'', PList [PDict [(''val'', PInt 4998)]])]) (Fin 100)
        = Inr [Some (Fin (4998 / 100))]
   \<and> extract_values Map.empty ''6100_00465700''
      (PDict [(''1'', PList [PDict [(''val'', PFloat (Fin 4998))]])]) (Fin 100)
        = Inr [Some (Fin (4998 / 100))]
   \<and> extract_values Map.empty ''6100_00465700''
      (PDict [(''1'', PList [PDict [(''val'', PFloat PInf)]])]) (Fin 100) = Inr [Some PInf]
   \<and> extract_values Map.empty ''6100_00465700''
      (PDict [(''1'', PList [PDict [(''val'', PNone)]])]) (Fin 100) = Inr [None]"
  using extract_single_reading [where f = "Fin 100" and pf = Map.empty
           and key = "''6100_00465700''"
           and fld = "[(''1'', PList [PDict [(''val'', PInt 4998)]])]"
           and inst = "[(''val'', PInt 4998)]" and i = 4998 and r = 4998 and d = 100]
    extract_single_reading [where f = "Fin 100" and pf = Map.empty
           and key = "''6100_00465700''"
           and fld = "[(''1'', PList [PDict [(''val'', PFloat (Fin 4998))]])]"
           and inst = "[(''val'', PFloat (Fin 4998))]" and x = "Fin 4998" and r = 4998
           and d = 100]
    extract_single_reading [where f = "Fin 100" and pf = Map.empty
           and key = "''6100_00465700''"
           and fld = "[(''1'', PList [PDict [(''val'', PFloat PInf)]])]"
           and inst = "[(''val'', PFloat PInf)]" and x = PInf]
    extract_single_reading [where f = "Fin 100" and pf = Map.empty
           and key = "''6100_00465700''"
           and fld = "[(''1'', PList [PDict [(''val'', PNone)]])]"
           and inst = "[(''val'', PNone)]"]
  by (simp add: dict_keys_def float_overflow_def in_range_def)

text \<open>
  Claim C6, as the spec states it, fails: the integer \<open>10^309\<close> is a numeric raw reading,
  and the extraction of a single-reading field that holds it returns no value. It raises
  \<open>OverflowError\<close>.
\<close>

theorem extract_single_reading_overflow:
  "extract_values Map.empty ''6100_00465700''
      (PDict [(''1'', PList [PDict [(''val'', PInt (10 ^ 309))]])]) (Fin 100)
     = Inl OverflowError"
  by (simp add: extract_values_def clean_value_def dict_keys_def float_overflow_def)

lemma clean_value_instance:
  assumes "instance_reading kvs" and "f \<noteq> Fin 0"
  shows "clean_value pf key (PDict kvs) f
           = Inr (map_option (\<lambda>x. fdiv x f) (instance_float kvs))"
proof -
  from assms(1) obtain v where v: "map_of kvs ''val'' = Some v" "raw_reading v"
    by (auto simp: instance_reading_def split: option.splits)
  then show ?thesis using assms(2)
    by (cases v)
       (auto simp: clean_value_def instance_float_def raw_reading_def py_truediv_def
             split: if_splits)
qed

lemma extract_loop_readings:
  assumes "list_all instance_reading insts" and "f \<noteq> Fin 0"
  shows "extract_loop pf key (map PDict insts) f acc
           = Inr (acc @ map (\<lambda>x. Some (fdiv x f)) (List.map_filter instance_float insts))"
  using assms(1)
proof (induction insts arbitrary: acc)
  case Nil
  show ?case by simp
next
  case (Cons kvs insts)
  then have v: "instance_reading kvs" and rest: "list_all instance_reading insts" by simp_all
  show ?case
  proof (cases "instance_float kvs")
    case None
    then show ?thesis
      using Cons.IH [OF rest] clean_value_instance [OF v assms(2)] by simp
  next
    case (Some x)
    then show ?thesis
      using Cons.IH [OF rest] clean_value_instance [OF v assms(2)] by simp
  qed
qed

text \<open>
  Claim C1, as the code has it. A multi-reading field holds, under its only key \<^verbatim>\<open>"1"\<close>, a
  list of two or more instances, each an object whose \<^verbatim>\<open>"val"\<close> is null or a number that
  \<^verbatim>\<open>float()\<close> converts. For a scale factor \<open>f > 0\<close>, \<open>extract_values\<close> returns the scaled
  values of the instances whose reading is a number, in the order the device reports
  them; an instance whose reading is null has no entry in the result (it is dropped, and
  it is never turned into 0).
\<close>

theorem extract_multi_reading:
  assumes "float_positive f"
    and "dict_keys fld = [''1'']"
    and "map_of fld ''1'' = Some (PList (map PDict insts))"
    and "2 \<le> length insts"
    and "list_all instance_reading insts"
  shows "extract_values pf key (PDict fld) f
           = Inr (map (\<lambda>x. Some (fdiv x f)) (List.map_filter instance_float insts))"
proof -
  have "f \<noteq> Fin 0" using assms(1) by (rule float_positive_nonzero)
  from extract_loop_readings [OF assms(5) this, of pf key "[]"] assms(2,3,4)
  show ?thesis
    by (simp add: extract_values_def)
qed

theorem extract_multi_reading_witness:
  "extract_values Map.empty ''6380_40452100''
     (PDict [(''1'', PList [PDict [(''val'', PInt 1500)],
                            PDict [(''val'', PNone), (''low'', PInt 0)],
                            PDict [(''val'', PFloat (Fin 2500))]])]) (Fin 1000)
   = Inr [Some (Fin (1500 / 1000)), Some (Fin (2500 / 1000))]"
  using extract_multi_reading [where f = "Fin 1000" and pf = Map.empty
          and key = "''6380_40452100''"
          and fld = "[(''1'', PList [PDict [(''val'', PInt 1500)],
                            PDict [(''val'', PNone), (''low'', PInt 0)],
                            PDict [(''val'', PFloat (Fin 2500))]])]"
          and insts = "[[(''val'', PInt 1500)], [(''val'', PNone), (''low'', PInt 0)],
                        [(''val'', PFloat (Fin 2500))]]"]
  by (simp add: dict_keys_def instance_reading_def instance_float_def raw_reading_def
        float_overflow_def fl_def)

text \<open>
  Claim C1, as the spec states it, fails: of the three instances 100, null, 300 the
  extractor returns two values, and no absent entry stands at the second position.
\<close>

theorem extract_multi_reading_drops_null:
  "extract_values Map.empty ''6380_40451F00''
     (PDict [(''1'', PList [PDict [(''val'', PInt 100)], PDict [(''val'', PNone)],
                            PDict [(''val'', PInt 300)]])]) (Fin 1)
   = Inr [Some (Fin 100), Some (Fin 300)]
   \<and> extract_values Map.empty ''6380_40451F00''
     (PDict [(''1'', PList [PDict [(''val'', PInt 100)], PDict [(''val'', PNone)],
                            PDict [(''val'', PInt 300)]])]) (Fin 1)
   \<noteq> Inr [Some (Fin 100), None, Some (Fin 300)]"
  by (simp add: extract_values_def clean_value_def dict_keys_def py_truediv_def
        float_overflow_def fl_def)

section \<open>Properties of the loop over the catalog\<close>

lemma map_of_dict_set: "map_of (dict_set kvs k v) = (map_of kvs)(k \<mapsto> v)"
  by (induction kvs) auto

lemma read_field_effect:
  assumes "read_field pf data key info mv = Inr mv'"
  shows "(py_in key data = Inr False \<and> mv' = mv)
       \<or> (\<exists>raw vs. py_in key data = Inr True \<and> py_getitem data (PStr key) = Inr raw
             \<and> extract_values pf key raw (factor info) = Inr vs
             \<and> map_of mv' = (map_of mv)(name info := field_value vs (map_of mv (name info))))"
proof (cases "py_in key data")
  case (Inl e)
  with assms show ?thesis by (simp add: read_field_def)
next
  case (Inr b)
  show ?thesis
  proof (cases b)
    case False
    with Inr assms show ?thesis by (simp add: read_field_def)
  next
    case True
    with Inr have inn: "py_in key data = Inr True" by simp
    from assms inn obtain raw where raw: "py_getitem data (PStr key) = Inr raw"
      by (cases "py_getitem data (PStr key)") (simp_all add: read_field_def)
    from assms inn raw obtain vs where vs: "extract_values pf key raw (factor info) = Inr vs"
      by (cases "extract_values pf key raw (factor info)") (simp_all add: read_field_def)
    have "map_of mv' = (map_of mv)(name info := field_value vs (map_of mv (name info)))"
    proof (cases vs)
      case Nil
      with assms inn raw vs show ?thesis
        by (auto simp: read_field_def field_value_def)
    next
      case (Cons v vs')
      note c1 = this
      show ?thesis
      proof (cases vs')
        case Nil
        with c1 assms inn raw vs show ?thesis
          by (cases v) (auto simp: read_field_def field_value_def map_of_dict_set)
      next
        case (Cons v' vs'')
        with c1 have long: "length vs \<noteq> 0" "length vs \<noteq> 1" by simp_all
        show ?thesis
        proof (cases "not_none vs")
          case Nil
          with long assms inn raw vs show ?thesis
            by (simp add: read_field_def field_value_def Let_def)
        next
          case (Cons x xs)
          note n1 = this
          show ?thesis
          proof (cases xs)
            case Nil
            with n1 long assms inn raw vs show ?thesis
              by (auto simp: read_field_def field_value_def Let_def map_of_dict_set)
          next
            case (Cons y ys)
            with n1 long assms inn raw vs show ?thesis
              by (auto simp: read_field_def field_value_def Let_def map_of_dict_set
                    py_truediv_def float_mean_def)
          qed
        qed
      qed
    qed
    with inn raw vs show ?thesis by blast
  qed
qed

lemma read_field_shape:
  assumes "read_field pf data key info mv = Inr mv'"
  shows "mv' = mv \<or> (\<exists>x. mv' = dict_set mv (name info) (PFloat x))"
  using assms
  by (auto simp: read_field_def Let_def split: sum.splits bool.splits option.splits if_splits)

lemma read_fields_other:
  assumes "read_fields pf data cat mv = Inr mv'" and "n \<notin> set (map (\<lambda>ki. name (snd ki)) cat)"
  shows "map_of mv' n = map_of mv n"
  using assms
proof (induction cat arbitrary: mv)
  case Nil
  then show ?case by simp
next
  case (Cons ki cat)
  obtain key info where ki: "ki = (key, info)" by (cases ki)
  from Cons.prems(1) ki obtain mv1 where
    step: "read_field pf data key info mv = Inr mv1" and
    rest: "read_fields pf data cat mv1 = Inr mv'"
    by (cases "read_field pf data key info mv") simp_all
  from Cons.prems(2) ki have n: "n \<noteq> name info" "n \<notin> set (map (\<lambda>ki. name (snd ki)) cat)"
    by auto
  from read_field_shape [OF step] n(1) have "map_of mv1 n = map_of mv n"
    by (auto simp: map_of_dict_set)
  with Cons.IH [OF rest n(2)] show ?case by simp
qed

lemma read_fields_field:
  assumes "read_fields pf data cat mv = Inr mv'"
    and "distinct (map (\<lambda>ki. name (snd ki)) cat)"
    and "(key, info) \<in> set cat"
  shows "(py_in key data = Inr False \<and> map_of mv' (name info) = map_of mv (name info))
       \<or> (\<exists>raw vs. py_in key data = Inr True \<and> py_getitem data (PStr key) = Inr raw
             \<and> extract_values pf key raw (factor info) = Inr vs
             \<and> map_of mv' (name info) = field_value vs (map_of mv (name info)))"
  using assms
proof (induction cat arbitrary: mv)
  case Nil
  then show ?case by simp
next
  case (Cons ki cat)
  obtain k i where ki: "ki = (k, i)" by (cases ki)
  from Cons.prems(1) ki obtain mv1 where
    step: "read_field pf data k i mv = Inr mv1" and
    rest: "read_fields pf data cat mv1 = Inr mv'"
    by (cases "read_field pf data k i mv") simp_all
  from Cons.prems(2) ki have d: "name i \<notin> set (map (\<lambda>ki. name (snd ki)) cat)"
    "distinct (map (\<lambda>ki. name (snd ki)) cat)" by auto
  show ?case
  proof (cases "(key, info) = (k, i)")
    case True
    from read_fields_other [OF rest d(1)] have "map_of mv' (name i) = map_of mv1 (name i)" .
    with read_field_effect [OF step] True show ?thesis by auto
  next
    case False
    with Cons.prems(3) ki have mem: "(key, info) \<in> set cat" by auto
    then have "name info \<in> (\<lambda>ki. name (snd ki)) ` set cat" by (metis imageI snd_conv)
    moreover from d(1) have "name i \<notin> (\<lambda>ki. name (snd ki)) ` set cat" by simp
    ultimately have "name info \<noteq> name i" by metis
    with read_field_shape [OF step] have "map_of mv1 (name info) = map_of mv (name info)"
      by (auto simp: map_of_dict_set)
    with Cons.IH [OF rest d(2) mem] show ?thesis by simp
  qed
qed

lemma floats_only_dict_set: "floats_only kvs \<Longrightarrow> floats_only (dict_set kvs k (PFloat x))"
  by (induction kvs) (auto simp: floats_only_def)

lemma read_fields_floats:
  assumes "read_fields pf data cat mv = Inr mv'" and "floats_only mv"
  shows "floats_only mv'"
  using assms
proof (induction cat arbitrary: mv)
  case Nil
  then show ?case by simp
next
  case (Cons ki cat)
  obtain k i where ki: "ki = (k, i)" by (cases ki)
  from Cons.prems(1) ki obtain mv1 where
    step: "read_field pf data k i mv = Inr mv1" and
    rest: "read_fields pf data cat mv1 = Inr mv'"
    by (cases "read_field pf data k i mv") simp_all
  from read_field_shape [OF step] Cons.prems(2) have "floats_only mv1"
    by (auto simp: floats_only_dict_set)
  with Cons.IH [OF rest] show ?case .
qed

lemma names_distinct: "distinct (map (\<lambda>ki. name (snd ki)) FIELD_MAPPING)"
  by (simp add: FIELD_MAPPING_def)

lemma online_not_a_field: "''online'' \<notin> set (map (\<lambda>ki. name (snd ki)) FIELD_MAPPING)"
  by (simp add: FIELD_MAPPING_def)

lemma frequency_field:
  "(''6100_00465700'', \<lparr>name = ''frequency'', description = ''Frequency'',
       unit = ''Hz'', kind = ''gauge'', factor = Fin 100\<rparr>) \<in> set FIELD_MAPPING"
  by (simp add: FIELD_MAPPING_def)

section \<open>Properties of a successful cycle\<close>

lemma login_keeps:
  assumes "login dev x st = (r, st')"
  shows "metrics_queue st' = metrics_queue st \<and> sample_rate st' = sample_rate st
       \<and> sma_devices st' = sma_devices st"
  using assms
  by (auto simp: login_def Let_def save_def save_body_def
           split: sum.splits bool.splits if_splits prod.splits io.splits)

lemma fetch_values_keeps:
  assumes "fetch_values dev xs st = (r, st', rest)"
  shows "metrics_queue st' = metrics_queue st \<and> sample_rate st' = sample_rate st
       \<and> sma_devices st' = sma_devices st"
  using assms
proof (induction dev xs st rule: fetch_values.induct)
  case (1 dev st)
  then show ?case by simp
next
  case (2 dev x xs st)
  let ?ip = "sma_inverter_ip dev"
  let ?sid = "case map_of (sma_sid st) ?ip of None \<Rightarrow> PStr [] | Some s \<Rightarrow> s"
  let ?st1 = "st\<lparr>events := events st @ [PostGetValues ?ip ?sid]\<rparr>"
  show ?case
  proof (cases "\<exists>b ba y ys st2 u. reply x = Inr b \<and> py_get b ''err'' PNone = Inr ba \<and> py_eq_int ba 401
                \<and> xs = y # ys \<and> login dev y ?st1 = (Inr u, st2)")
    case True
    then obtain b ba y ys st2 u where h: "reply x = Inr b" "py_get b ''err'' PNone = Inr ba"
      "py_eq_int ba 401" "xs = y # ys" "login dev y ?st1 = (Inr u, st2)" by blast
    from "2.prems" h have "fetch_values dev ys st2 = (r, st', rest)"
      by (simp add: Let_def)
    from "2.IH" [OF refl refl refl h(1) h(2) h(3) h(4) h(5) [symmetric] refl this]
      login_keeps [OF h(5)]
    show ?thesis by simp
  next
    case False
    with "2.prems" show ?thesis
      by (auto simp: Let_def split: sum.splits if_splits list.splits prod.splits
               dest: login_keeps)
  qed
qed



lemma sample_values_Inr:
  assumes "sample_values pf data = Inr vals"
  shows "\<exists>mv. read_fields pf data FIELD_MAPPING [] = Inr mv
           \<and> vals = dict_set mv ''online''
                 (PBool (\<not> (map_of mv ''frequency'' = None
                            \<or> map_of mv ''frequency'' = Some PNone)))"
  using assms
  by (auto simp: sample_values_def Let_def split: sum.splits)

lemma read_data_Return:
  assumes "read_data pf dev now xs st = (Return u, st', rest)"
  shows "\<exists>response st1 serial data vals.
           fetch_values dev xs st = (Return response, st1, rest)
         \<and> parse_response response = Inr (serial, data)
         \<and> sample_values pf data = Inr vals
         \<and> st' = enqueue_metrics serial vals now st1"
  using assms
  by (auto simp: read_data_def split: prod.splits outcome.splits sum.splits)

lemma read_data_sample:
  assumes "read_data pf dev now xs st = (Return u, st', rest)"
  shows "\<exists>response st1 serial data mv smp.
           fetch_values dev xs st = (Return response, st1, rest)
         \<and> parse_response response = Inr (serial, data)
         \<and> read_fields pf data FIELD_MAPPING [] = Inr mv
         \<and> values_of smp = dict_set mv ''online''
                 (PBool (\<not> (map_of mv ''frequency'' = None
                            \<or> map_of mv ''frequency'' = Some PNone)))
         \<and> metrics_queue st' = smp # metrics_queue st"
proof -
  from read_data_Return [OF assms] obtain response st1 serial data vals where
    f: "fetch_values dev xs st = (Return response, st1, rest)" and
    p: "parse_response response = Inr (serial, data)" and
    v: "sample_values pf data = Inr vals" and
    e: "st' = enqueue_metrics serial vals now st1" by blast
  from sample_values_Inr [OF v] obtain mv where
    mv: "read_fields pf data FIELD_MAPPING [] = Inr mv" and
    vals: "vals = dict_set mv ''online''
                 (PBool (\<not> (map_of mv ''frequency'' = None
                            \<or> map_of mv ''frequency'' = Some PNone)))" by blast
  let ?smp = "\<lparr>type_of = ''sma'', timestamp = now, tags = [(''device'', serial)],
               values_of = vals\<rparr>"
  from e fetch_values_keeps [OF f] have "metrics_queue st' = ?smp # metrics_queue st"
    by (simp add: enqueue_metrics_def)
  moreover have "values_of ?smp = vals" by simp
  ultimately show ?thesis using f p mv vals by blast
qed

lemma set_dict_set:
  "(a, b) \<in> set (dict_set kvs k v) \<Longrightarrow> (a, b) = (k, v) \<or> (a, b) \<in> set kvs"
  by (induction kvs) (auto split: if_splits)

lemma read_fields_keys:
  assumes "read_fields pf data cat [] = Inr mv" and "(k, v) \<in> set mv"
  shows "k \<in> (\<lambda>ki. name (snd ki)) ` set cat"
proof (rule ccontr)
  assume "k \<notin> (\<lambda>ki. name (snd ki)) ` set cat"
  then have "k \<notin> set (map (\<lambda>ki. name (snd ki)) cat)" by simp
  from read_fields_other [OF assms(1) this] have "map_of mv k = None" by simp
  with assms(2) show False by (metis map_of_eq_None_iff fst_conv imageI)
qed

lemma floats_only_mem: "floats_only kvs \<Longrightarrow> (k, v) \<in> set kvs \<Longrightarrow> \<exists>r. v = PFloat r"
  by (auto simp: floats_only_def list_all_iff split: pyval.splits)


lemma field_value_None: "field_value vs None = None \<longleftrightarrow> not_none vs = []"
  by (auto simp: field_value_def split: list.splits)


text \<open>The definitions that evaluate a cycle on a concrete answer of the device.\<close>

lemmas eval_defs = read_data_def parse_response_def sample_values_def read_field_def
  FIELD_MAPPING_def extract_values_def clean_value_def dict_keys_def enqueue_metrics_def
  py_index_def Let_def login_def save_def save_body_def py_truediv_def py_sum_def fl_def
  float_overflow_def



text \<open>
  Claim C4. The sample of a successful cycle has the key \<^verbatim>\<open>online\<close>, a bool. It is false
  exactly when the sample's values have no \<^verbatim>\<open>frequency\<close> or have null there, and true
  otherwise. In terms of the payload it is true exactly when the frequency field
  \<^verbatim>\<open>6100_00465700\<close> is there and its extraction has a reading that is not absent: no other
  field of the payload has a part in it.
\<close>

theorem read_data_online:
  assumes "read_data pf dev now xs st = (Return u, st', rest)"
  shows "\<exists>response st1 serial data smp b.
           fetch_values dev xs st = (Return response, st1, rest)
         \<and> parse_response response = Inr (serial, data)
         \<and> metrics_queue st' = smp # metrics_queue st
         \<and> map_of (values_of smp) ''online'' = Some (PBool b)
         \<and> (b = False \<longleftrightarrow> (map_of (values_of smp) ''frequency'' = None
                            \<or> map_of (values_of smp) ''frequency'' = Some PNone))
         \<and> (b = True \<longleftrightarrow> (\<exists>raw vs. py_in ''6100_00465700'' data = Inr True
                            \<and> py_getitem data (PStr ''6100_00465700'') = Inr raw
                            \<and> extract_values pf ''6100_00465700'' raw (Fin 100) = Inr vs
                            \<and> not_none vs \<noteq> []))"
proof -
  from read_data_sample [OF assms(1)] obtain response st1 serial data mv smp where
    f: "fetch_values dev xs st = (Return response, st1, rest)" and
    p: "parse_response response = Inr (serial, data)" and
    mv: "read_fields pf data FIELD_MAPPING [] = Inr mv" and
    vals: "values_of smp = dict_set mv ''online''
                 (PBool (\<not> (map_of mv ''frequency'' = None
                            \<or> map_of mv ''frequency'' = Some PNone)))" and
    q: "metrics_queue st' = smp # metrics_queue st" by blast
  let ?b = "\<not> (map_of mv ''frequency'' = None \<or> map_of mv ''frequency'' = Some PNone)"
  have on: "map_of (values_of smp) ''online'' = Some (PBool ?b)"
    unfolding vals by (simp add: map_of_dict_set)
  have fr: "map_of (values_of smp) ''frequency'' = map_of mv ''frequency''"
    unfolding vals by (simp add: map_of_dict_set)
  have fl: "floats_only mv"
    using read_fields_floats [OF mv] by (simp add: floats_only_def)
  have notnull: "map_of mv ''frequency'' \<noteq> Some PNone"
  proof
    assume "map_of mv ''frequency'' = Some PNone"
    then have "(''frequency'', PNone) \<in> set mv" by (rule map_of_SomeD)
    from floats_only_mem [OF fl this] show False by simp
  qed
  have ch: "(py_in ''6100_00465700'' data = Inr False \<and> map_of mv ''frequency'' = None)
       \<or> (\<exists>raw vs. py_in ''6100_00465700'' data = Inr True
             \<and> py_getitem data (PStr ''6100_00465700'') = Inr raw
             \<and> extract_values pf ''6100_00465700'' raw (Fin 100) = Inr vs
             \<and> map_of mv ''frequency'' = field_value vs None)"
    using read_fields_field [OF mv names_distinct frequency_field] by simp
  have present: "map_of mv ''frequency'' \<noteq> None
          \<longleftrightarrow> (\<exists>raw vs. py_in ''6100_00465700'' data = Inr True
                            \<and> py_getitem data (PStr ''6100_00465700'') = Inr raw
                            \<and> extract_values pf ''6100_00465700'' raw (Fin 100) = Inr vs
                            \<and> not_none vs \<noteq> [])"
  proof
    assume some: "map_of mv ''frequency'' \<noteq> None"
    with ch obtain raw vs where
      h: "py_in ''6100_00465700'' data = Inr True"
         "py_getitem data (PStr ''6100_00465700'') = Inr raw"
         "extract_values pf ''6100_00465700'' raw (Fin 100) = Inr vs" and
      m: "map_of mv ''frequency'' = field_value vs None" by auto
    from some m have "not_none vs \<noteq> []" by (simp add: field_value_None)
    with h show "\<exists>raw vs. py_in ''6100_00465700'' data = Inr True
                            \<and> py_getitem data (PStr ''6100_00465700'') = Inr raw
                            \<and> extract_values pf ''6100_00465700'' raw (Fin 100) = Inr vs
                            \<and> not_none vs \<noteq> []" by blast
  next
    assume "\<exists>raw vs. py_in ''6100_00465700'' data = Inr True
                            \<and> py_getitem data (PStr ''6100_00465700'') = Inr raw
                            \<and> extract_values pf ''6100_00465700'' raw (Fin 100) = Inr vs
                            \<and> not_none vs \<noteq> []"
    then obtain raw vs where
      h: "py_in ''6100_00465700'' data = Inr True"
         "py_getitem data (PStr ''6100_00465700'') = Inr raw"
         "extract_values pf ''6100_00465700'' raw (Fin 100) = Inr vs"
         "not_none vs \<noteq> []" by blast
    with ch have "map_of mv ''frequency'' = field_value vs None" by auto
    with h(4) show "map_of mv ''frequency'' \<noteq> None" by (simp add: field_value_None)
  qed
  have "?b = True \<longleftrightarrow> (\<exists>raw vs. py_in ''6100_00465700'' data = Inr True
                            \<and> py_getitem data (PStr ''6100_00465700'') = Inr raw
                            \<and> extract_values pf ''6100_00465700'' raw (Fin 100) = Inr vs
                            \<and> not_none vs \<noteq> [])"
    using present notnull by simp
  moreover have "?b = False \<longleftrightarrow> (map_of (values_of smp) ''frequency'' = None
                            \<or> map_of (values_of smp) ''frequency'' = Some PNone)"
    unfolding fr by simp
  ultimately show ?thesis using f p q on
    by (intro exI [where x = response] exI [where x = st1] exI [where x = serial]
          exI [where x = data] exI [where x = smp] exI [where x = ?b] conjI)
qed

theorem read_data_online_witness:
  "\<exists>st' smp.
     read_data Map.empty \<lparr>sma_inverter_ip = ''https://192.168.0.230'', password = ''pw''\<rparr> 0
       [Exchange (Inr (PDict [(''result'', PDict [(''3001234567'',
          PDict [(''6100_00465700'', PDict [(''1'', PList [PDict [(''val'', PNone)]])])])])]))
          Succeeds]
       \<lparr>sample_rate = 30,
        sma_devices = [\<lparr>sma_inverter_ip = ''https://192.168.0.230'', password = ''pw''\<rparr>],
        sma_sid = [], metrics_queue = [], sid_file = NoFile, events = []\<rparr>
       = (Return (), st', [])
     \<and> metrics_queue st' = [smp]
     \<and> map_of (values_of smp) ''online'' = Some (PBool False)
     \<and> map_of (values_of smp) ''frequency'' = None"
proof -
  let ?dev = "\<lparr>sma_inverter_ip = ''https://192.168.0.230'', password = ''pw''\<rparr>"
  let ?data = "PDict [(''6100_00465700'', PDict [(''1'', PList [PDict [(''val'', PNone)]])])]"
  let ?xs = "[Exchange (Inr (PDict [(''result'', PDict [(''3001234567'', ?data)])])) Succeeds]"
  let ?st = "\<lparr>sample_rate = 30, sma_devices = [?dev],
        sma_sid = [], metrics_queue = [], sid_file = NoFile, events = []\<rparr>"
  obtain st' where run: "read_data Map.empty ?dev 0 ?xs ?st = (Return (), st', [])"
    and fr: "map_of (values_of (hd (metrics_queue st'))) ''frequency'' = None"
    by (simp add: eval_defs)
  from read_data_online [OF run] obtain response st1 serial data smp b where
    f: "fetch_values ?dev ?xs ?st = (Return response, st1, [])" and
    p: "parse_response response = Inr (serial, data)" and
    q: "metrics_queue st' = smp # metrics_queue ?st" and
    on: "map_of (values_of smp) ''online'' = Some (PBool b)" and
    b: "b = True \<longleftrightarrow> (\<exists>raw vs. py_in ''6100_00465700'' data = Inr True
                            \<and> py_getitem data (PStr ''6100_00465700'') = Inr raw
                            \<and> extract_values Map.empty ''6100_00465700'' raw (Fin 100) = Inr vs
                            \<and> not_none vs \<noteq> [])"
    by blast
  from f p have "data = ?data"
    by (auto simp: parse_response_def dict_keys_def py_index_def)
  with b have "b = False"
    by (auto simp: extract_values_def clean_value_def dict_keys_def)
  with run q on fr show ?thesis by simp
qed

text \<open>
  Claim C10, as the code has it. In the sample of a successful cycle no value is null:
  the value under \<^verbatim>\<open>online\<close> is a bool and every other value is a float, the result of
  the scaling or the mean of such results. The float can be an infinity or \<open>nan\<close>. So
  \<^verbatim>\<open>frequency\<close>, when it is there, is not null.
\<close>

theorem read_data_values_invariant:
  assumes "read_data pf dev now xs st = (Return u, st', rest)"
  shows "\<exists>smp. metrics_queue st' = smp # metrics_queue st
           \<and> (\<forall>(k, v) \<in> set (values_of smp).
                 v \<noteq> PNone \<and> (if k = ''online'' then \<exists>b. v = PBool b else \<exists>r. v = PFloat r))
           \<and> map_of (values_of smp) ''frequency'' \<noteq> Some PNone"
proof -
  from read_data_sample [OF assms(1)] obtain response st1 serial data mv smp where
    mv: "read_fields pf data FIELD_MAPPING [] = Inr mv" and
    vals: "values_of smp = dict_set mv ''online''
                 (PBool (\<not> (map_of mv ''frequency'' = None
                            \<or> map_of mv ''frequency'' = Some PNone)))" and
    q: "metrics_queue st' = smp # metrics_queue st" by blast
  have fl: "floats_only mv"
    using read_fields_floats [OF mv] by (simp add: floats_only_def)
  have no_online: "''online'' \<notin> (\<lambda>ki. name (snd ki)) ` set FIELD_MAPPING"
    using online_not_a_field by simp
  have entry: "v \<noteq> PNone \<and> (if k = ''online'' then \<exists>b. v = PBool b else \<exists>r. v = PFloat r)"
    if "(k, v) \<in> set (values_of smp)" for k v
  proof -
    from that have "(k, v) \<in> set (dict_set mv ''online''
                 (PBool (\<not> (map_of mv ''frequency'' = None
                            \<or> map_of mv ''frequency'' = Some PNone))))"
      unfolding vals .
    from set_dict_set [OF this]
    consider "k = ''online''" "\<exists>b. v = PBool b" | "(k, v) \<in> set mv" by auto
    then show ?thesis
    proof cases
      case 1
      then show ?thesis by auto
    next
      case 2
      from read_fields_keys [OF mv 2] no_online have "k \<noteq> ''online''" by metis
      with floats_only_mem [OF fl 2] show ?thesis by auto
    qed
  qed
  have "map_of (values_of smp) ''frequency'' \<noteq> Some PNone"
  proof
    assume "map_of (values_of smp) ''frequency'' = Some PNone"
    then have "(''frequency'', PNone) \<in> set (values_of smp)" by (rule map_of_SomeD)
    from entry [OF this] show False by simp
  qed
  with q entry show ?thesis by blast
qed

theorem read_data_values_invariant_witness:
  "\<exists>st' smp.
     read_data Map.empty \<lparr>sma_inverter_ip = ''https://192.168.0.230'', password = ''pw''\<rparr> 0
       [Exchange (Inr (PDict [(''result'', PDict [(''3001234567'',
          PDict [(''6100_00465700'', PDict [(''1'', PList [PDict [(''val'', PInt 4998)]])]),
                 (''6100_00464800'', PDict [(''1'', PList [PDict [(''val'', PNone)]])])])])]))
          Succeeds]
       \<lparr>sample_rate = 30,
        sma_devices = [\<lparr>sma_inverter_ip = ''https://192.168.0.230'', password = ''pw''\<rparr>],
        sma_sid = [], metrics_queue = [], sid_file = NoFile, events = []\<rparr>
       = (Return (), st', [])
     \<and> metrics_queue st' = [smp]
     \<and> values_of smp = [(''frequency'', PFloat (Fin (4998 / 100))), (''online'', PBool True)]
     \<and> list_all (\<lambda>kv. snd kv \<noteq> PNone) (values_of smp)"
proof -
  let ?dev = "\<lparr>sma_inverter_ip = ''https://192.168.0.230'', password = ''pw''\<rparr>"
  let ?data = "PDict [(''6100_00465700'', PDict [(''1'', PList [PDict [(''val'', PInt 4998)]])]),
                 (''6100_00464800'', PDict [(''1'', PList [PDict [(''val'', PNone)]])])]"
  let ?xs = "[Exchange (Inr (PDict [(''result'', PDict [(''3001234567'', ?data)])])) Succeeds]"
  let ?st = "\<lparr>sample_rate = 30, sma_devices = [?dev],
        sma_sid = [], metrics_queue = [], sid_file = NoFile, events = []\<rparr>"
  obtain st' where run: "read_data Map.empty ?dev 0 ?xs ?st = (Return (), st', [])"
    and vals: "values_of (hd (metrics_queue st'))
                 = [(''frequency'', PFloat (Fin (4998 / 100))), (''online'', PBool True)]"
    by (simp add: eval_defs)
  from read_data_values_invariant [OF run] obtain smp where
    q: "metrics_queue st' = smp # metrics_queue ?st" and
    inv: "\<forall>(k, v) \<in> set (values_of smp).
            v \<noteq> PNone \<and> (if k = ''online'' then \<exists>b. v = PBool b else \<exists>r. v = PFloat r)"
    by blast
  from inv have "list_all (\<lambda>kv. snd kv \<noteq> PNone) (values_of smp)"
    by (auto simp: list_all_iff)
  with run q vals show ?thesis by simp
qed

text \<open>
  Claim C10, as the spec states it, fails: the values of a sample can hold a float that
  is not finite. The device reports the frequency \<^verbatim>\<open>1e999\<close>, which is read as \<open>inf\<close>;
  it is not \<open>None\<close>, so the sample holds \<open>inf\<close> under \<^verbatim>\<open>frequency\<close>, and it is online.
\<close>

theorem read_data_stores_infinity:
  "read_data Map.empty \<lparr>sma_inverter_ip = ''https://192.168.0.230'', password = ''pw''\<rparr> 0
       [Exchange (Inr (PDict [(''result'', PDict [(''3001234567'',
          PDict [(''6100_00465700'', PDict [(''1'', PList [PDict [(''val'', PFloat PInf)]])])])])]))
          Succeeds]
       \<lparr>sample_rate = 30,
        sma_devices = [\<lparr>sma_inverter_ip = ''https://192.168.0.230'', password = ''pw''\<rparr>],
        sma_sid = [], metrics_queue = [], sid_file = NoFile, events = []\<rparr>
   = (Return (),
      \<lparr>sample_rate = 30,
        sma_devices = [\<lparr>sma_inverter_ip = ''https://192.168.0.230'', password = ''pw''\<rparr>],
        sma_sid = [],
        metrics_queue =
          [\<lparr>type_of = ''sma'', timestamp = 0, tags = [(''device'', ''3001234567'')],
            values_of = [(''frequency'', PFloat PInf), (''online'', PBool True)]\<rparr>],
        sid_file = NoFile,
        events = [PostGetValues ''https://192.168.0.230'' (PStr [])]\<rparr>,
      [])"
  by (simp add: eval_defs)

section \<open>Properties of a failed cycle\<close>

lemma parse_response_unexpected:
  assumes "map_of resp ''result'' = None
         \<or> (\<exists>result n. map_of resp ''result'' = Some result \<and> py_len result = Inr n \<and> n \<noteq> 1)
         \<or> (\<exists>kvs serial. map_of resp ''result'' = Some (PDict kvs) \<and> dict_keys kvs = [serial]
               \<and> map_of kvs serial = Some PNone)"
  shows "parse_response (PDict resp)
           = Inl (RuntimeError ''Unexpected response: {0}'' [PDict resp])"
  using assms by (auto simp: parse_response_def)

text \<open>
  The shapes the check of \<^verbatim>\<open>_read_data\<close> does catch. Let the response that ends the fetch
  loop lack the key \<^verbatim>\<open>result\<close>, or have a \<^verbatim>\<open>result\<close> that has a length other than
  one, or have a \<^verbatim>\<open>result\<close> with one device serial whose payload is null. Then the cycle
  raises the \<open>RuntimeError\<close> with the message \<^verbatim>\<open>Unexpected response\<close> and the response,
  and the queue is as it was.
\<close>

lemma read_data_unexpected_response:
  assumes "fetch_values dev xs st = (Return (PDict resp), st1, rest)"
    and "map_of resp ''result'' = None
         \<or> (\<exists>result n. map_of resp ''result'' = Some result \<and> py_len result = Inr n \<and> n \<noteq> 1)
         \<or> (\<exists>kvs serial. map_of resp ''result'' = Some (PDict kvs) \<and> dict_keys kvs = [serial]
               \<and> map_of kvs serial = Some PNone)"
  shows "read_data pf dev now xs st
           = (Raise (RuntimeError ''Unexpected response: {0}'' [PDict resp]), st1, rest)
       \<and> metrics_queue st1 = metrics_queue st"
  using parse_response_unexpected [OF assms(2)] fetch_values_keeps [OF assms(1)] assms(1)
  by (simp add: read_data_def)

text \<open>
  Claim C8 does not hold of the code. The response \<^verbatim>\<open>{"result": null}\<close> has a
  \<^verbatim>\<open>result\<close> with no device serial in it, so the cycle should fail with the descriptive
  error \<^verbatim>\<open>Unexpected response\<close>. The shape check takes \<^verbatim>\<open>len\<close> of the \<^verbatim>\<open>result\<close>
  first, and \<^verbatim>\<open>len(None)\<close> raises: the cycle fails with a bare \<open>TypeError\<close>. No sample is
  enqueued.
\<close>

theorem read_data_result_null:
  "read_data Map.empty \<lparr>sma_inverter_ip = ''https://192.168.0.230'', password = ''pw''\<rparr> 0
       [Exchange (Inr (PDict [(''result'', PNone)])) Succeeds]
       \<lparr>sample_rate = 30,
        sma_devices = [\<lparr>sma_inverter_ip = ''https://192.168.0.230'', password = ''pw''\<rparr>],
        sma_sid = [], metrics_queue = [], sid_file = NoFile, events = []\<rparr>
   = (Raise TypeError,
      \<lparr>sample_rate = 30,
        sma_devices = [\<lparr>sma_inverter_ip = ''https://192.168.0.230'', password = ''pw''\<rparr>],
        sma_sid = [], metrics_queue = [], sid_file = NoFile,
        events = [PostGetValues ''https://192.168.0.230'' (PStr [])]\<rparr>,
      [])"
  by (simp add: read_data_def parse_response_def)

text \<open>
  Claim C7. Let the device answer a fetch with 401 and the login that follows with an
  object that has no \<^verbatim>\<open>result\<close> and whose \<^verbatim>\<open>err\<close> is 503. Then \<open>login\<close> raises the
  \<open>RuntimeError\<close> with the message \<^verbatim>\<open>Maximum amount of sessions\<close>, the cycle ends with
  that error after these two requests (the remaining answers \<open>ys\<close> of the device are not
  asked for, so there is no further fetch), and nothing is put on the queue. The error
  differs from the one a login raises on any other code \<open>c3\<close>, which is the
  \<open>RuntimeError\<close> with the message \<^verbatim>\<open>Could not login\<close> and the code.
\<close>

theorem login_maximum_sessions:
  assumes "reply x = Inr (PDict r1)" and "map_of r1 ''err'' = Some c1" and "py_eq_int c1 401"
    and "reply y = Inr (PDict r2)" and "map_of r2 ''result'' = None"
    and "map_of r2 ''err'' = Some c2" and "py_eq_int c2 503"
  shows "\<exists>st'. read_data pf dev now (x # y # ys) st
                 = (Raise (RuntimeError ''Maximum amount of sessions'' []), st', ys)
           \<and> events st' = events st @
                 [PostGetValues (sma_inverter_ip dev)
                    (case map_of (sma_sid st) (sma_inverter_ip dev) of
                       None \<Rightarrow> PStr [] | Some s \<Rightarrow> s),
                  PostLogin (sma_inverter_ip dev) (password dev)]
           \<and> metrics_queue st' = metrics_queue st
           \<and> fst (login dev y st) = Inl (RuntimeError ''Maximum amount of sessions'' [])
           \<and> RuntimeError ''Maximum amount of sessions'' []
                 \<noteq> RuntimeError ''Could not login: {0}'' [c]
           \<and> (\<forall>z r3 c3. reply z = Inr (PDict r3) \<and> map_of r3 ''result'' = None
                 \<and> map_of r3 ''err'' = Some c3 \<and> \<not> py_eq_int c3 503
                 \<longrightarrow> fst (login dev z st) = Inl (RuntimeError ''Could not login: {0}'' [c3]))"
proof -
  have l: "login dev y s = (Inl (RuntimeError ''Maximum amount of sessions'' []),
             s\<lparr>events := events s @ [PostLogin (sma_inverter_ip dev) (password dev)]\<rparr>)"
    for s
    using assms(4-7) by (simp add: login_def Let_def)
  have g: "fst (login dev z st) = Inl (RuntimeError ''Could not login: {0}'' [c3])"
    if "reply z = Inr (PDict r3)" "map_of r3 ''result'' = None"
       "map_of r3 ''err'' = Some c3" "\<not> py_eq_int c3 503" for z r3 c3
    using that by (simp add: login_def Let_def)
  have "read_data pf dev now (x # y # ys) st
          = (Raise (RuntimeError ''Maximum amount of sessions'' []),
             st\<lparr>events := events st @
                 [PostGetValues (sma_inverter_ip dev)
                    (case map_of (sma_sid st) (sma_inverter_ip dev) of
                       None \<Rightarrow> PStr [] | Some s \<Rightarrow> s),
                  PostLogin (sma_inverter_ip dev) (password dev)]\<rparr>, ys)"
    using assms(1-3) by (simp add: read_data_def Let_def l)
  then show ?thesis using l [of st] g by auto
qed

theorem login_maximum_sessions_witness:
  "read_data Map.empty \<lparr>sma_inverter_ip = ''https://192.168.0.230'', password = ''pw''\<rparr> 0
       [Exchange (Inr (PDict [(''err'', PInt 401)])) Succeeds,
        Exchange (Inr (PDict [(''err'', PInt 503)])) Succeeds,
        Exchange (Inr (PDict [(''result'', PDict [(''3001234567'', PDict [])])])) Succeeds]
       \<lparr>sample_rate = 30,
        sma_devices = [\<lparr>sma_inverter_ip = ''https://192.168.0.230'', password = ''pw''\<rparr>],
        sma_sid = [], metrics_queue = [], sid_file = NoFile, events = []\<rparr>
   = (Raise (RuntimeError ''Maximum amount of sessions'' []),
      \<lparr>sample_rate = 30,
        sma_devices = [\<lparr>sma_inverter_ip = ''https://192.168.0.230'', password = ''pw''\<rparr>],
        sma_sid = [], metrics_queue = [], sid_file = NoFile,
        events = [PostGetValues ''https://192.168.0.230'' (PStr []),
                  PostLogin ''https://192.168.0.230'' ''pw'']\<rparr>,
      [Exchange (Inr (PDict [(''result'', PDict [(''3001234567'', PDict [])])])) Succeeds])"
  using login_maximum_sessions [where pf = Map.empty and now = 0
      and dev = "\<lparr>sma_inverter_ip = ''https://192.168.0.230'', password = ''pw''\<rparr>"
      and x = "Exchange (Inr (PDict [(''err'', PInt 401)])) Succeeds"
      and ?r1.0 = "[(''err'', PInt 401)]" and ?c1.0 = "PInt 401"
      and y = "Exchange (Inr (PDict [(''err'', PInt 503)])) Succeeds"
      and ?r2.0 = "[(''err'', PInt 503)]" and ?c2.0 = "PInt 503"
      and ys = "[Exchange (Inr (PDict [(''result'', PDict [(''3001234567'', PDict [])])]))
                  Succeeds]"
      and st = "\<lparr>sample_rate = 30,
        sma_devices = [\<lparr>sma_inverter_ip = ''https://192.168.0.230'', password = ''pw''\<rparr>],
        sma_sid = [], metrics_queue = [], sid_file = NoFile, events = []\<rparr>"]
  by (simp add: eval_defs)

section \<open>Properties of the polling loop\<close>

lemma read_data_keeps:
  assumes "read_data pf dev now xs st = (r, st', rest)"
  shows "sample_rate st' = sample_rate st \<and> sma_devices st' = sma_devices st"
proof -
  obtain r1 st1 rest1 where f: "fetch_values dev xs st = (r1, st1, rest1)"
    by (cases "fetch_values dev xs st") auto
  from assms f have "st' = st1 \<or> (\<exists>serial vals. st' = enqueue_metrics serial vals now st1)"
    by (auto simp: read_data_def split: outcome.splits sum.splits prod.splits)
  with fetch_values_keeps [OF f] show ?thesis
    by (auto simp: enqueue_metrics_def)
qed

lemma read_devices_no_raise: "read_devices pf devs now xs st \<noteq> Raise ex"
  by (induction devs arbitrary: xs st) (auto split: prod.splits outcome.splits)

lemma run_iteration_no_raise: "run_iteration pf c st \<noteq> Raise ex"
  using read_devices_no_raise [of pf "sma_devices st" "clock c" "script c" st]
  by (auto simp: run_iteration_def split: outcome.splits)

lemma run_never_dies: "run pf cs st \<noteq> Dies ex"
  using run_iteration_no_raise
  by (induction cs arbitrary: st) (auto split: outcome.splits)

text \<open>
  Claim C3. Let the read of the plugin's device raise an error \<open>ex\<close> in a pass of the
  loop. The loop reports the error (\<^verbatim>\<open>logging.exception\<close> and the line
  \<^verbatim>\<open>Could not read SMA device values\<close>), sleeps for the sample rate and goes on with the
  next pass. And whatever happens in its passes, the loop never ends with an error.
\<close>

theorem run_survives_failed_cycle:
  assumes "sma_devices st = [d]"
    and "read_data pf d (clock c) (script c) st = (Raise ex, st1, rest)"
  shows "run pf (c # cs) st
           = run pf cs (st1\<lparr>events := events st1 @
                 [LogException ex, LogCouldNotRead ex, Sleep (sample_rate st)]\<rparr>)
       \<and> run pf cs2 st2 \<noteq> Dies ex2"
  using assms read_data_keeps [OF assms(2)] run_never_dies [of pf cs2 st2 ex2]
  by (simp add: run_iteration_def)

theorem run_survives_failed_cycle_witness:
  "run Map.empty
     [Cycle [Exchange (Inl RequestError) Succeeds] 0,
      Cycle [Exchange (Inr (PDict [(''result'', PDict [(''3001234567'', PDict [])])])) Succeeds]
        30]
     \<lparr>sample_rate = 30,
      sma_devices = [\<lparr>sma_inverter_ip = ''https://192.168.0.230'', password = ''pw''\<rparr>],
      sma_sid = [], metrics_queue = [], sid_file = NoFile, events = []\<rparr>
   = Looping
      \<lparr>sample_rate = 30,
       sma_devices = [\<lparr>sma_inverter_ip = ''https://192.168.0.230'', password = ''pw''\<rparr>],
       sma_sid = [],
       metrics_queue =
         [\<lparr>type_of = ''sma'', timestamp = 30, tags = [(''device'', ''3001234567'')],
           values_of = [(''online'', PBool False)]\<rparr>],
       sid_file = NoFile,
       events = [PostGetValues ''https://192.168.0.230'' (PStr []),
                 LogException RequestError, LogCouldNotRead RequestError, Sleep 30,
                 PostGetValues ''https://192.168.0.230'' (PStr []), Sleep 30]\<rparr>"
proof -
  let ?dev = "\<lparr>sma_inverter_ip = ''https://192.168.0.230'', password = ''pw''\<rparr>"
  let ?st = "\<lparr>sample_rate = 30, sma_devices = [?dev],
        sma_sid = [], metrics_queue = [], sid_file = NoFile, events = []\<rparr>"
  let ?c = "Cycle [Exchange (Inl RequestError) Succeeds] 0"
  have d: "sma_devices ?st = [?dev]" by simp
  have r: "read_data Map.empty ?dev (clock ?c) (script ?c) ?st
             = (Raise RequestError,
                ?st\<lparr>events := [PostGetValues ''https://192.168.0.230'' (PStr [])]\<rparr>, [])"
    by (simp add: read_data_def)
  from run_survives_failed_cycle [OF d r] show ?thesis
    by (simp add: run_iteration_def eval_defs)
qed

section \<open>Properties of the Metrics Queue\<close>

declare collect_queue.simps [simp del]

lemma collect_queue_rev: "collect_queue q = (rev q, [])"
proof (induction q rule: rev_induct)
  case Nil
  show ?case by (simp add: collect_queue.simps [of "[]"] pop_def)
next
  case (snoc x q)
  then show ?case by (simp add: collect_queue.simps [of "q @ [x]"] pop_def)
qed

text \<open>
  Claim C5. Three samples are enqueued one after the other, with no drain in between.
  A full drain then yields what the queue held before, oldest first, and after it the
  three samples in the order of their arrival (on a queue that was empty: exactly the
  three); it leaves the queue empty, and a second drain right after it yields nothing.
\<close>

theorem collect_metrics_fifo:
  "fst (collect_metrics
          (enqueue_metrics d3 v3 t3 (enqueue_metrics d2 v2 t2 (enqueue_metrics d1 v1 t1 st))))
     = rev (metrics_queue st) @
       [\<lparr>type_of = ''sma'', timestamp = t1, tags = [(''device'', d1)], values_of = v1\<rparr>,
        \<lparr>type_of = ''sma'', timestamp = t2, tags = [(''device'', d2)], values_of = v2\<rparr>,
        \<lparr>type_of = ''sma'', timestamp = t3, tags = [(''device'', d3)], values_of = v3\<rparr>]
   \<and> metrics_queue (snd (collect_metrics
          (enqueue_metrics d3 v3 t3 (enqueue_metrics d2 v2 t2 (enqueue_metrics d1 v1 t1 st)))))
     = []
   \<and> fst (collect_metrics (snd (collect_metrics
          (enqueue_metrics d3 v3 t3 (enqueue_metrics d2 v2 t2 (enqueue_metrics d1 v1 t1 st))))))
     = []"
  by (simp add: collect_metrics_def collect_queue_rev enqueue_metrics_def)

theorem collect_metrics_fifo_witness:
  "fst (collect_metrics
          (enqueue_metrics ''3001234567'' [(''online'', PBool True)] 3
          (enqueue_metrics ''3001234567'' [(''online'', PBool False)] 2
          (enqueue_metrics ''3001234567'' [] 1
             \<lparr>sample_rate = 30, sma_devices = [], sma_sid = [], metrics_queue = [],
              sid_file = NoFile, events = []\<rparr>))))
     = [\<lparr>type_of = ''sma'', timestamp = 1, tags = [(''device'', ''3001234567'')],
          values_of = []\<rparr>,
        \<lparr>type_of = ''sma'', timestamp = 2, tags = [(''device'', ''3001234567'')],
          values_of = [(''online'', PBool False)]\<rparr>,
        \<lparr>type_of = ''sma'', timestamp = 3, tags = [(''device'', ''3001234567'')],
          values_of = [(''online'', PBool True)]\<rparr>]"
  using collect_metrics_fifo [where st = "\<lparr>sample_rate = 30, sma_devices = [], sma_sid = [],
          metrics_queue = [], sid_file = NoFile, events = []\<rparr>"
      and ?d1.0 = "''3001234567''" and ?v1.0 = "[]" and ?t1.0 = 1
      and ?d2.0 = "''3001234567''" and ?v2.0 = "[(''online'', PBool False)]" and ?t2.0 = 2
      and ?d3.0 = "''3001234567''" and ?v3.0 = "[(''online'', PBool True)]" and ?t3.0 = 3]
  by simp

section \<open>Properties of the Session Store\<close>

text \<open>
  Claim C9. When the file operations succeed, \<open>get\<close> after \<open>save x\<close> returns \<open>x\<close>, for
  every \<open>x\<close> and whatever the file held before. \<open>save\<close> and \<open>get\<close> never raise, and
  whenever the \<^verbatim>\<open>try\<close> block of \<open>get\<close> fails (the file cannot be opened or read, is
  absent, is not JSON, or is JSON without a \<^verbatim>\<open>sid\<close>), \<open>get\<close> returns \<open>None\<close>.
\<close>

theorem sid_persister_roundtrip:
  "get Succeeds (snd (save Succeeds x f)) = Inr x
   \<and> fst (save io1 x f) = Inr ()
   \<and> get io2 f2 \<noteq> Inl e
   \<and> (get_body io2 f2 = Inl e \<longrightarrow> get io2 f2 = Inr PNone)"
  by (auto simp: get_def get_body_def save_def save_body_def split: sum.splits io.splits)

theorem sid_persister_roundtrip_witness:
  "get Succeeds (snd (save Succeeds (PStr ''abc'') NotJson)) = Inr (PStr ''abc'')
   \<and> get_body Succeeds NotJson = Inl ValueError
   \<and> get Succeeds NotJson = Inr PNone
   \<and> get_body OpenFails (Json (PDict [(''sid'', PStr ''abc'')])) = Inl OSError
   \<and> get OpenFails (Json (PDict [(''sid'', PStr ''abc'')])) = Inr PNone"
  using sid_persister_roundtrip [where x = "PStr ''abc''" and f = NotJson and ?io2.0 = Succeeds
      and ?f2.0 = NotJson and e = ValueError]
    sid_persister_roundtrip [where ?io2.0 = OpenFails
      and ?f2.0 = "Json (PDict [(''sid'', PStr ''abc'')])" and e = OSError]
  by (simp add: get_body_def)

end
